theory Spec2Isabelle
  imports Main
begin

section \<open>Python values used by AppPowerSwitcher\<close>

text \<open>
  Strings are lists of 8-bit characters, read as code points below 256; on that range
  \<open>str.isspace\<close> and \<open>str.lower\<close> are the two functions below. A value that may be
  \<open>None\<close> is an \<open>option\<close>; an operation that may raise returns a sum with the exception
  on the left. Logging at debug and info level is left out; warnings and errors that the
  properties mention are kept as trace entries.
\<close>

definition py_isspace :: "char \<Rightarrow> bool" where
  "py_isspace ch =
     (let n = (of_char ch :: nat)
      in (9 \<le> n \<and> n \<le> 13) \<or> (28 \<le> n \<and> n \<le> 32) \<or> n = 133 \<or> n = 160)"

definition py_lower_char :: "char \<Rightarrow> char" where
  "py_lower_char ch =
     (let n = (of_char ch :: nat)
      in if (65 \<le> n \<and> n \<le> 90) \<or> (192 \<le> n \<and> n \<le> 222 \<and> n \<noteq> 215)
         then char_of (n + 32) else ch)"

definition py_lower :: "string \<Rightarrow> string" where
  "py_lower s = map py_lower_char s"

definition py_strip :: "string \<Rightarrow> string" where
  "py_strip s = rev (dropWhile py_isspace (rev (dropWhile py_isspace s)))"

datatype exn = Queue_Full | Queue_Empty | Exception string

section \<open>The event channel: \<open>queue.Queue\<close>\<close>

text \<open>
  \<open>queue.Queue(maxsize)\<close> is bounded when \<open>maxsize > 0\<close> and unbounded otherwise.
  \<open>put_nowait\<close> never waits: at capacity it raises \<open>queue.Full\<close> and leaves the queue
  as it was. \<open>get_nowait\<close> is what \<open>get(timeout)\<close> returns once the timeout has expired
  with no producer running.
\<close>

record 'a py_queue =
  maxsize :: int
  items :: "'a list"

definition Queue :: "int \<Rightarrow> 'a py_queue" where
  "Queue m = \<lparr>maxsize = m, items = []\<rparr>"

definition full :: "'a py_queue \<Rightarrow> bool" where
  "full q = (0 < maxsize q \<and> maxsize q \<le> int (length (items q)))"

definition put_nowait :: "'a py_queue \<Rightarrow> 'a \<Rightarrow> exn + 'a py_queue" where
  "put_nowait q x = (if full q then Inl Queue_Full else Inr (q\<lparr>items := items q @ [x]\<rparr>))"

definition get_nowait :: "'a py_queue \<Rightarrow> (exn + 'a) \<times> 'a py_queue" where
  "get_nowait q =
     (case items q of
        [] \<Rightarrow> (Inl Queue_Empty, q)
      | x # xs \<Rightarrow> (Inr x, q\<lparr>items := xs\<rparr>))"

text \<open>
  The queue carries process names and the stop sentinel \<open>None\<close>.
\<close>

type_synonym event_queue = "string option py_queue"

subsection \<open>Publishing from \<open>_global_win_event_callback\<close>\<close>

datatype publish_result = Delivered | Dropped | Not_published

text \<open>
  The callback for \<open>EVENT_SYSTEM_FOREGROUND\<close>, after the process name has been resolved:
  a name that is \<open>None\<close> or empty is not published, a missing global queue is an error
  that is logged, \<open>queue.Full\<close> and any other exception of \<open>put_nowait\<close> are logged and
  the name is lost. The callback returns nothing; \<open>publish_result\<close> is what its log
  reports.
\<close>

definition global_win_event_callback ::
  "event_queue option \<Rightarrow> string option \<Rightarrow> publish_result \<times> event_queue option" where
  "global_win_event_callback processing_queue process_name =
     (case process_name of
        None \<Rightarrow> (Not_published, processing_queue)
      | Some name \<Rightarrow>
          if name = [] then (Not_published, processing_queue)
          else (case processing_queue of
                  None \<Rightarrow> (Not_published, None)
                | Some q \<Rightarrow>
                    (case put_nowait q (Some name) of
                       Inl e \<Rightarrow> (Dropped, Some q)
                     | Inr q' \<Rightarrow> (Delivered, Some q'))))"

text \<open>
  Publishing a sequence of names with no receive in between, and receiving until the
  queue reports empty.
\<close>

fun publish_all :: "event_queue \<Rightarrow> string list \<Rightarrow> publish_result list \<times> event_queue" where
  "publish_all q [] = ([], q)"
| "publish_all q (name # names) =
     (case global_win_event_callback (Some q) (Some name) of
        (r, Some q') \<Rightarrow> (case publish_all q' names of (rs, q'') \<Rightarrow> (r # rs, q''))
      | (r, None) \<Rightarrow> ([r], q))"

fun receive_all :: "nat \<Rightarrow> 'a py_queue \<Rightarrow> 'a list" where
  "receive_all 0 q = []"
| "receive_all (Suc n) q =
     (case get_nowait q of
        (Inl e, q') \<Rightarrow> []
      | (Inr x, q') \<Rightarrow> x # receive_all n q')"

section \<open>The collaborators of the switch engine\<close>

text \<open>
  \<open>_process_queue\<close> talks to a \<open>ConfigManager\<close> and a \<open>PowerCfgManager\<close> through five
  methods. A value of \<open>collaborators\<close> is what the two objects answer during one
  iteration of the loop; every call may raise. The trace of an iteration lists the
  calls that were made, in order, and the warnings and errors that were logged.
\<close>

record collaborators =
  get_power_plan_for_process :: "string \<Rightarrow> exn + string option"
  get_default_power_plan :: "exn + string option"
  get_active_scheme_guid :: "exn + string option"
  get_power_plan_name_from_guid :: "string \<Rightarrow> exn + string option"
  switch_power_plan :: "string \<Rightarrow> exn + bool"

datatype event =
    Call_get_power_plan_for_process string
  | Call_get_default_power_plan
  | Call_get_active_scheme_guid
  | Call_get_power_plan_name_from_guid string
  | Call_switch_power_plan string
  | Warning_default_plan_empty
  | Warning_target_empty
  | Error_no_active_scheme
  | Error_switch_failed
  | Error_unexpected exn

fun is_switch_call :: "event \<Rightarrow> bool" where
  "is_switch_call (Call_switch_power_plan g) = True"
| "is_switch_call _ = False"

fun is_resolution_call :: "event \<Rightarrow> bool" where
  "is_resolution_call (Call_get_power_plan_for_process n) = True"
| "is_resolution_call _ = False"

fun is_power_controller_call :: "event \<Rightarrow> bool" where
  "is_power_controller_call Call_get_active_scheme_guid = True"
| "is_power_controller_call (Call_get_power_plan_name_from_guid g) = True"
| "is_power_controller_call (Call_switch_power_plan g) = True"
| "is_power_controller_call _ = False"

section \<open>The switch engine: \<open>PowerSwitcherApp._process_queue\<close>\<close>

record engine_state =
  last_processed_process :: "string option"
  last_applied_power_plan_identifier :: "string option"
  last_known_active_guid :: "string option"

definition initial_engine_state :: engine_state where
  "initial_engine_state =
     \<lparr>last_processed_process = None,
      last_applied_power_plan_identifier = None,
      last_known_active_guid = None\<rparr>"

text \<open>
  Lines 275 to 278: the resolved identifier is stripped, and an identifier that is empty
  after stripping ends the iteration with a warning.
\<close>

definition clean_target :: "string \<Rightarrow> event list \<Rightarrow> (exn + string option) \<times> event list" where
  "clean_target g tr =
     (let target = py_strip g
      in if target = [] then (Inr None, tr @ [Warning_target_empty])
         else (Inr (Some target), tr))"

text \<open>
  Lines 262 to 278: the target plan of a process name. \<open>Inr None\<close> is the \<open>continue\<close>
  of the source (no target, nothing to switch), \<open>Inl\<close> an exception of a collaborator.
\<close>

definition resolve_target ::
  "collaborators \<Rightarrow> string \<Rightarrow> (exn + string option) \<times> event list" where
  "resolve_target c process_name =
     (case get_power_plan_for_process c process_name of
        Inl e \<Rightarrow> (Inl e, [Call_get_power_plan_for_process process_name])
      | Inr (Some g) \<Rightarrow> clean_target g [Call_get_power_plan_for_process process_name]
      | Inr None \<Rightarrow>
          (case get_default_power_plan c of
             Inl e \<Rightarrow>
               (Inl e, [Call_get_power_plan_for_process process_name,
                        Call_get_default_power_plan])
           | Inr None \<Rightarrow>
               (Inr None, [Call_get_power_plan_for_process process_name,
                           Call_get_default_power_plan, Warning_default_plan_empty])
           | Inr (Some d) \<Rightarrow>
               if d = []
               then (Inr None, [Call_get_power_plan_for_process process_name,
                                Call_get_default_power_plan, Warning_default_plan_empty])
               else clean_target d [Call_get_power_plan_for_process process_name,
                                    Call_get_default_power_plan]))"

text \<open>
  The two assignments that follow a match and a successful switch (lines 305 and 306,
  322 and 324).
\<close>

definition record_plan :: "string \<Rightarrow> engine_state \<Rightarrow> engine_state" where
  "record_plan target s =
     s\<lparr>last_applied_power_plan_identifier := Some target,
       last_known_active_guid := Some (py_lower target)\<rparr>"

text \<open>
  Both branches look the friendly names of the active and of the target plan up before
  anything else, for the log line (lines 295 and 296, 310 and 311).
\<close>

definition lookup_names :: "collaborators \<Rightarrow> string \<Rightarrow> string \<Rightarrow> (exn + unit) \<times> event list" where
  "lookup_names c current_active_guid target =
     (case get_power_plan_name_from_guid c current_active_guid of
        Inl e \<Rightarrow> (Inl e, [Call_get_power_plan_name_from_guid current_active_guid])
      | Inr n1 \<Rightarrow>
          (case get_power_plan_name_from_guid c target of
             Inl e \<Rightarrow> (Inl e, [Call_get_power_plan_name_from_guid current_active_guid,
                               Call_get_power_plan_name_from_guid target])
           | Inr n2 \<Rightarrow> (Inr (), [Call_get_power_plan_name_from_guid current_active_guid,
                                 Call_get_power_plan_name_from_guid target])))"

text \<open>
  Lines 283 to 327: query the active plan, compare it with the target without regard to
  case, and switch when they differ.
\<close>

definition compare_and_switch ::
  "collaborators \<Rightarrow> string \<Rightarrow> engine_state \<Rightarrow> (exn + unit) \<times> engine_state \<times> event list" where
  "compare_and_switch c target s =
     (case get_active_scheme_guid c of
        Inl e \<Rightarrow> (Inl e, s, [Call_get_active_scheme_guid])
      | Inr None \<Rightarrow> (Inr (), s, [Call_get_active_scheme_guid, Error_no_active_scheme])
      | Inr (Some current_active_guid) \<Rightarrow>
          if current_active_guid = []
          then (Inr (), s, [Call_get_active_scheme_guid, Error_no_active_scheme])
          else if py_lower current_active_guid = py_lower target
          then (case lookup_names c current_active_guid target of
                  (Inl e, tr) \<Rightarrow> (Inl e, s, Call_get_active_scheme_guid # tr)
                | (Inr u, tr) \<Rightarrow>
                    (Inr (),
                     (if last_known_active_guid s \<noteq> Some (py_lower target)
                      then record_plan target s else s),
                     Call_get_active_scheme_guid # tr))
          else (case lookup_names c current_active_guid target of
                  (Inl e, tr) \<Rightarrow> (Inl e, s, Call_get_active_scheme_guid # tr)
                | (Inr u, tr) \<Rightarrow>
                    (case switch_power_plan c target of
                       Inl e \<Rightarrow>
                         (Inl e, s,
                          Call_get_active_scheme_guid # tr @ [Call_switch_power_plan target])
                     | Inr switch_success \<Rightarrow>
                         if switch_success
                         then (Inr (), record_plan target s,
                               Call_get_active_scheme_guid # tr @ [Call_switch_power_plan target])
                         else (Inr (), s,
                               Call_get_active_scheme_guid # tr
                                 @ [Call_switch_power_plan target, Error_switch_failed]))))"

text \<open>
  Lines 253 to 327: the body of the \<open>try\<close> for one process name taken from the queue.
  \<open>Inr ()\<close> is the end of the body or a \<open>continue\<close>; \<open>Inl e\<close> is an exception on its way
  to the handlers of the loop, with the state as the body left it.
\<close>

definition process_item ::
  "collaborators \<Rightarrow> string \<Rightarrow> engine_state \<Rightarrow> (exn + unit) \<times> engine_state \<times> event list" where
  "process_item c process_name s =
     (if Some process_name = last_processed_process s then (Inr (), s, [])
      else let s1 = s\<lparr>last_processed_process := Some process_name\<rparr>
           in case resolve_target c process_name of
                (Inl e, tr) \<Rightarrow> (Inl e, s1, tr)
              | (Inr None, tr) \<Rightarrow> (Inr (), s1, tr)
              | (Inr (Some target), tr) \<Rightarrow>
                  (case compare_and_switch c target s1 of
                     (r, s2, tr2) \<Rightarrow> (r, s2, tr @ tr2)))"

text \<open>
  The handlers of the loop (lines 331 to 340): \<open>queue.Empty\<close> is passed over in silence,
  every other exception is logged; the loop goes on in both cases.
\<close>

definition handle_exception :: "exn \<Rightarrow> event list" where
  "handle_exception e = (if e = Queue_Empty then [] else [Error_unexpected e])"

text \<open>
  What one \<open>get(block=True, timeout=0.5)\<close> gives: \<open>queue.Empty\<close> after the timeout, the
  sentinel \<open>None\<close>, or a process name.
\<close>

datatype received = Timeout | Sentinel | Process_name string

text \<open>
  The loop runs in its own thread; the running flag and the queue are written by other
  threads. One iteration therefore reads three things from outside: the flag at the
  loop test, what \<open>get\<close> returns, and what the collaborators answer. The loop is a
  function of the list of these readings; when the list is used up the loop is still
  running.
\<close>

record iteration =
  running_is_set :: bool
  got :: received
  answers :: collaborators

datatype loop_status = Loop_finished | Loop_running

fun process_queue ::
  "iteration list \<Rightarrow> engine_state \<Rightarrow> loop_status \<times> engine_state \<times> event list" where
  "process_queue [] s = (Loop_running, s, [])"
| "process_queue (it # its) s =
     (if \<not> running_is_set it then (Loop_finished, s, [])
      else case got it of
             Timeout \<Rightarrow> process_queue its s
           | Sentinel \<Rightarrow> (Loop_finished, s, [])
           | Process_name process_name \<Rightarrow>
               (case process_item (answers it) process_name s of
                  (Inl e, s', tr) \<Rightarrow>
                    (case process_queue its s' of
                       (st, s'', tr') \<Rightarrow> (st, s'', tr @ handle_exception e @ tr'))
                | (Inr u, s', tr) \<Rightarrow>
                    (case process_queue its s' of
                       (st, s'', tr') \<Rightarrow> (st, s'', tr @ tr'))))"

section \<open>\<open>ConfigManager\<close>: the plan directory\<close>

record config_manager =
  app_power_map :: "string \<rightharpoonup> string"
  default_power_plan :: "string option"
  log_level :: "string option"

definition GUID_BALANCED :: string where
  "GUID_BALANCED = ''381b4222-f694-41f0-9685-ff5bb260df2e''"

definition GUID_HIGH_PERFORMANCE :: string where
  "GUID_HIGH_PERFORMANCE = ''8c5e7fda-e8bf-4a96-9a85-a6e23a8c635c''"

definition GUID_POWER_SAVER :: string where
  "GUID_POWER_SAVER = ''a1841308-3541-4fab-bc81-f71556f20b4a''"

definition ConfigManager_init :: config_manager where
  "ConfigManager_init =
     \<lparr>app_power_map = Map.empty, default_power_plan = None, log_level = None\<rparr>"

definition ConfigManager_get_power_plan_for_process ::
  "config_manager \<Rightarrow> string \<Rightarrow> string option" where
  "ConfigManager_get_power_plan_for_process cfg process_name =
     (if process_name = [] then None
      else let lookup_name = py_strip (py_lower process_name)
           in app_power_map cfg lookup_name)"

definition ConfigManager_get_default_power_plan :: "config_manager \<Rightarrow> string option" where
  "ConfigManager_get_default_power_plan cfg = default_power_plan cfg"

text \<open>
  \<open>update_general_settings\<close> stores the new default plan stripped, and a new log level
  stripped and in upper case when it is one of the six valid levels. (\<open>py_upper_char\<close>
  leaves the three code points below 256 whose upper case lies above 255 as they are;
  none of them occurs in a valid level, so the test is the one of the source.)
  \<open>load_config\<close> assigns to the default plan either \<open>GUID_BALANCED\<close> or the result of
  a \<open>strip()\<close>.
\<close>

definition py_upper_char :: "char \<Rightarrow> char" where
  "py_upper_char ch =
     (let n = (of_char ch :: nat)
      in if (97 \<le> n \<and> n \<le> 122) \<or> (224 \<le> n \<and> n \<le> 254 \<and> n \<noteq> 247)
         then char_of (n - 32) else ch)"

definition py_upper :: "string \<Rightarrow> string" where
  "py_upper s = map py_upper_char s"

definition valid_levels :: "string list" where
  "valid_levels = [''CRITICAL'', ''ERROR'', ''WARNING'', ''INFO'', ''DEBUG'', ''NOTSET'']"

definition update_general_settings ::
  "config_manager \<Rightarrow> string option \<Rightarrow> string option \<Rightarrow> config_manager" where
  "update_general_settings cfg default_power_plan_guid new_log_level =
     (let cfg1 = (case default_power_plan_guid of
                    None \<Rightarrow> cfg
                  | Some g \<Rightarrow> cfg\<lparr>default_power_plan := Some (py_strip g)\<rparr>)
      in case new_log_level of
           None \<Rightarrow> cfg1
         | Some l \<Rightarrow>
             (let log_level_str = py_upper (py_strip l)
              in if log_level_str \<notin> set valid_levels then cfg1
                 else cfg1\<lparr>log_level := Some log_level_str\<rparr>))"

section \<open>\<open>PowerCfgManager\<close>: the power controller\<close>

text \<open>
  \<open>subprocess.run\<close> either raises or returns a completed process. The manager is given
  the function that runs a command; each of its methods returns, next to its result, the
  list of commands it ran.
\<close>

record completed_process =
  returncode :: int
  stdout :: string
  stderr :: string

type_synonym subprocess_run = "string list \<Rightarrow> exn + completed_process"

record power_cfg_manager =
  name_to_guid_map :: "string \<rightharpoonup> string"
  guid_to_name_map :: "string \<rightharpoonup> string"

definition POWERCARD_COMMAND :: string where
  "POWERCARD_COMMAND = ''powercfg''"

definition SET_ACTIVE_ARG :: string where
  "SET_ACTIVE_ARG = ''/setactive''"

definition GET_ACTIVE_SCHEME_ARG :: string where
  "GET_ACTIVE_SCHEME_ARG = ''/getactivescheme''"

definition PowerCfgManager_switch_power_plan ::
  "subprocess_run \<Rightarrow> string option \<Rightarrow> bool \<times> string list list" where
  "PowerCfgManager_switch_power_plan run power_plan_guid =
     (case power_plan_guid of
        None \<Rightarrow> (False, [])
      | Some g \<Rightarrow>
          if g = [] then (False, [])
          else let command_identifier = py_strip g
               in let command = [POWERCARD_COMMAND, SET_ACTIVE_ARG, command_identifier]
                  in (case run command of
                        Inl e \<Rightarrow> (False, [command])
                      | Inr result \<Rightarrow>
                          if returncode result = 0 then (True, [command])
                          else (False, [command])))"

text \<open>
  \<open>GUID_PARSE_REGEX\<close> is \<open>GUID:\s*(h{8}-h{4}-h{4}-h{4}-h{12})\<close> with \<open>h\<close> a hexadecimal
  digit, matched without regard to case; \<open>search\<close> returns group 1 of the leftmost
  match.
\<close>

definition is_hex_digit :: "char \<Rightarrow> bool" where
  "is_hex_digit ch =
     (let n = (of_char ch :: nat)
      in (48 \<le> n \<and> n \<le> 57) \<or> (65 \<le> n \<and> n \<le> 70) \<or> (97 \<le> n \<and> n \<le> 102))"

fun match_literal :: "string \<Rightarrow> string \<Rightarrow> string option" where
  "match_literal [] s = Some s"
| "match_literal (p # ps) [] = None"
| "match_literal (p # ps) (x # xs) =
     (if py_lower_char p = py_lower_char x then match_literal ps xs else None)"

definition match_hex :: "nat \<Rightarrow> string \<Rightarrow> (string \<times> string) option" where
  "match_hex n s =
     (if n \<le> length s \<and> list_all is_hex_digit (take n s) then Some (take n s, drop n s)
      else None)"

definition match_hex_dash :: "nat \<Rightarrow> string \<Rightarrow> (string \<times> string) option" where
  "match_hex_dash n s =
     (case match_hex n s of
        None \<Rightarrow> None
      | Some (h, r) \<Rightarrow>
          (case r of
             [] \<Rightarrow> None
           | x # xs \<Rightarrow> if x = CHR ''-'' then Some (h @ [x], xs) else None))"

definition match_guid :: "string \<Rightarrow> string option" where
  "match_guid s =
     (case match_hex_dash 8 s of None \<Rightarrow> None | Some (g1, r1) \<Rightarrow>
      (case match_hex_dash 4 r1 of None \<Rightarrow> None | Some (g2, r2) \<Rightarrow>
       (case match_hex_dash 4 r2 of None \<Rightarrow> None | Some (g3, r3) \<Rightarrow>
        (case match_hex_dash 4 r3 of None \<Rightarrow> None | Some (g4, r4) \<Rightarrow>
         (case match_hex 12 r4 of None \<Rightarrow> None | Some (g5, r5) \<Rightarrow>
            Some (g1 @ g2 @ g3 @ g4 @ g5))))))"

definition GUID_PARSE_REGEX_match :: "string \<Rightarrow> string option" where
  "GUID_PARSE_REGEX_match s =
     (case match_literal ''GUID:'' s of
        None \<Rightarrow> None
      | Some r \<Rightarrow> match_guid (dropWhile py_isspace r))"

fun GUID_PARSE_REGEX_search :: "string \<Rightarrow> string option" where
  "GUID_PARSE_REGEX_search [] = GUID_PARSE_REGEX_match []"
| "GUID_PARSE_REGEX_search (x # xs) =
     (case GUID_PARSE_REGEX_match (x # xs) of
        Some g \<Rightarrow> Some g
      | None \<Rightarrow> GUID_PARSE_REGEX_search xs)"

definition PowerCfgManager_get_active_scheme_guid ::
  "subprocess_run \<Rightarrow> string option \<times> string list list" where
  "PowerCfgManager_get_active_scheme_guid run =
     (let command = [POWERCARD_COMMAND, GET_ACTIVE_SCHEME_ARG]
      in case run command of
           Inl e \<Rightarrow> (None, [command])
         | Inr result \<Rightarrow>
             if returncode result = 0
             then (case GUID_PARSE_REGEX_search (stdout result) of
                     Some g \<Rightarrow> (Some (py_strip g), [command])
                   | None \<Rightarrow> (None, [command]))
             else (None, [command]))"

definition PowerCfgManager_get_power_plan_name_from_guid ::
  "power_cfg_manager \<Rightarrow> string option \<Rightarrow> string option" where
  "PowerCfgManager_get_power_plan_name_from_guid pm guid =
     (case guid of
        None \<Rightarrow> None
      | Some g \<Rightarrow> if g = [] then None else guid_to_name_map pm (py_lower (py_strip g)))"

text \<open>
  The collaborators of a \<open>PowerSwitcherApp\<close>: its \<open>ConfigManager\<close> and its
  \<open>PowerCfgManager\<close>, with the operating system as it answers during the iteration.
  None of the five methods lets an exception out.
\<close>

definition app_collaborators ::
  "config_manager \<Rightarrow> power_cfg_manager \<Rightarrow> subprocess_run \<Rightarrow> collaborators" where
  "app_collaborators cfg pm run =
     \<lparr>get_power_plan_for_process = (\<lambda>n. Inr (ConfigManager_get_power_plan_for_process cfg n)),
      get_default_power_plan = Inr (ConfigManager_get_default_power_plan cfg),
      get_active_scheme_guid = Inr (fst (PowerCfgManager_get_active_scheme_guid run)),
      get_power_plan_name_from_guid =
        (\<lambda>g. Inr (PowerCfgManager_get_power_plan_name_from_guid pm (Some g))),
      switch_power_plan = (\<lambda>g. Inr (fst (PowerCfgManager_switch_power_plan run (Some g))))\<rparr>"

section \<open>\<open>EventListener\<close>: the foreground publisher\<close>

text \<open>
  The module keeps four globals next to the instance: the queue the callback publishes
  to, the hook handle, the identifier of the listener thread and the reference to the
  callback. There is one queue, so a reference to it is a flag, and the identity test
  \<open>_processing_queue is self._processing_queue\<close> compares the two flags. The last
  field is not a variable of the program: it is the subscription as the operating system
  holds it, installed by a successful \<open>SetWinEventHook\<close> and removed by a successful
  \<open>UnhookWinEvent\<close>; the program only ever holds its handle.
\<close>

datatype thread = Thread_created | Thread_alive | Thread_finished

fun is_alive :: "thread option \<Rightarrow> bool" where
  "is_alive (Some Thread_alive) = True"
| "is_alive _ = False"

record event_listener =
  is_running :: bool
  listener_thread :: "thread option"
  processing_queue :: bool
  global_processing_queue :: bool
  hook_handle :: "nat option"
  listener_thread_id :: "nat option"
  win_event_proc_ref :: bool
  installed_hook :: "nat option"

datatype lifecycle_event =
    Call_SetWinEventHook
  | Call_UnhookWinEvent nat
  | Call_PostThreadMessageW nat
  | Call_EventListener_stop
  | Join_listener_thread
  | Join_processing_thread
  | Put_sentinel
  | Warning_already_stopped
  | Warning_queue_full
  | Warning_listener_not_running
  | Warning_no_thread_id
  | Warning_listener_join_timeout
  | Error_processing_join_timeout
  | Error_PostThreadMessageW_failed
  | Error_hook_failed
  | Error_unhook_failed
  | Error_no_thread_id
  | Error_listener exn
  | Critical_listener_start_failed exn

definition EventListener_init :: event_listener where
  "EventListener_init =
     \<lparr>is_running = False, listener_thread = None, processing_queue = True,
      global_processing_queue = False, hook_handle = None, listener_thread_id = None,
      win_event_proc_ref = False, installed_hook = None\<rparr>"

text \<open>
  \<open>EventListener.start\<close>: the only thing that can raise is \<open>Thread.start()\<close>; the
  instance is then already marked as running and holds the thread object.
\<close>

definition EventListener_start ::
  "event_listener \<Rightarrow> exn option \<Rightarrow> (exn + unit) \<times> event_listener" where
  "EventListener_start l thread_start_error =
     (if is_running l then (Inr (), l)
      else let l1 = l\<lparr>is_running := True, listener_thread := Some Thread_created\<rparr>
           in case thread_start_error of
                Some e \<Rightarrow> (Inl e, l1)
              | None \<Rightarrow> (Inr (), l1\<lparr>listener_thread := Some Thread_alive\<rparr>))"

text \<open>
  What the operating system answers inside the listener thread. \<open>SetWinEventHook\<close>
  returns a handle; the null handle, which is its failure, reaches Python as \<open>None\<close>
  or as 0.
\<close>

record listener_os =
  GetCurrentThreadId :: "exn + nat"
  SetWinEventHook :: "exn + nat option"
  UnhookWinEvent :: "exn + bool"

text \<open>
  \<open>_cleanup_thread_entry\<close> unhooks a handle that is neither \<open>None\<close> nor 0 (a failure
  of \<open>UnhookWinEvent\<close> is logged, the handle is forgotten in any case) and clears the
  globals that belong to this thread. Its last test calls \<open>GetCurrentThreadId\<close> outside
  any \<open>try\<close>.
\<close>

definition cleanup_thread_entry ::
  "listener_os \<Rightarrow> event_listener \<Rightarrow> (exn + unit) \<times> event_listener \<times> lifecycle_event list" where
  "cleanup_thread_entry os l =
     (let (l1, tr) =
            (case hook_handle l of
               None \<Rightarrow> (l, [])
             | Some h \<Rightarrow>
                 if h \<noteq> 0
                 then (case UnhookWinEvent os of
                         Inl e \<Rightarrow>
                           (l\<lparr>hook_handle := None\<rparr>, [Call_UnhookWinEvent h, Error_listener e])
                       | Inr success \<Rightarrow>
                           if success
                           then (l\<lparr>hook_handle := None, installed_hook := None\<rparr>,
                                 [Call_UnhookWinEvent h])
                           else (l\<lparr>hook_handle := None\<rparr>,
                                 [Call_UnhookWinEvent h, Error_unhook_failed]))
                 else (l, []));
          l2 = l1\<lparr>win_event_proc_ref := False\<rparr>;
          l3 = (if global_processing_queue l2 \<and> processing_queue l2
                then l2\<lparr>global_processing_queue := False\<rparr> else l2)
      in case GetCurrentThreadId os of
           Inl e \<Rightarrow> (Inl e, l3, tr)
         | Inr tid \<Rightarrow>
             (Inr (),
              (if listener_thread_id l3 = Some tid then l3\<lparr>listener_thread_id := None\<rparr> else l3),
              tr))"

datatype thread_phase = In_message_loop | Thread_returned | Thread_raised exn

text \<open>
  \<open>_thread_entry\<close> up to the message loop: it either returns (the thread is over) or
  enters the loop with the hook set. When \<open>SetWinEventHook\<close> has failed the method
  cleans up (an exception of that clean-up is caught and logged) and returns, and the
  \<open>finally\<close> clause cleans up once more.
\<close>

definition thread_entry ::
  "listener_os \<Rightarrow> event_listener \<Rightarrow> thread_phase \<times> event_listener \<times> lifecycle_event list" where
  "thread_entry os l =
     (let l1 = l\<lparr>global_processing_queue := processing_queue l\<rparr>
      in case GetCurrentThreadId os of
           Inl e \<Rightarrow>
             (case cleanup_thread_entry os (l1\<lparr>is_running := False\<rparr>) of
                (Inl e', l2, tr) \<Rightarrow> (Thread_raised e', l2, Error_no_thread_id # tr)
              | (Inr u, l2, tr) \<Rightarrow> (Thread_returned, l2, Error_no_thread_id # tr))
         | Inr tid \<Rightarrow>
             (let l2 = l1\<lparr>listener_thread_id := Some tid, win_event_proc_ref := True\<rparr>
              in case SetWinEventHook os of
                   Inl e \<Rightarrow>
                     (case cleanup_thread_entry os l2 of
                        (Inl e', l3, tr) \<Rightarrow>
                          (Thread_raised e', l3, [Call_SetWinEventHook, Error_listener e] @ tr)
                      | (Inr u, l3, tr) \<Rightarrow>
                          (Thread_returned, l3, [Call_SetWinEventHook, Error_listener e] @ tr))
                 | Inr h \<Rightarrow>
                     (let l3 = l2\<lparr>hook_handle := h\<rparr>
                      in if h = None \<or> h = Some 0
                         then (case cleanup_thread_entry os l3 of
                                 (r1, l4, tr1) \<Rightarrow>
                                   (let tr1' = tr1 @ (case r1 of
                                                       Inl e \<Rightarrow> [Error_listener e]
                                                     | Inr u \<Rightarrow> [])
                                    in case cleanup_thread_entry os l4 of
                                         (Inl e', l5, tr2) \<Rightarrow>
                                           (Thread_raised e', l5,
                                            [Call_SetWinEventHook, Error_hook_failed] @ tr1' @ tr2)
                                       | (Inr u, l5, tr2) \<Rightarrow>
                                           (Thread_returned, l5,
                                            [Call_SetWinEventHook, Error_hook_failed] @ tr1' @ tr2)))
                         else (In_message_loop, l3\<lparr>installed_hook := h\<rparr>,
                               [Call_SetWinEventHook]))))"

text \<open>
  The end of \<open>_thread_entry\<close>, once \<open>GetMessageW\<close> has returned 0 or the loop has
  raised: the \<open>finally\<close> clause.
\<close>

definition thread_exit ::
  "listener_os \<Rightarrow> event_listener \<Rightarrow> event_listener \<times> lifecycle_event list" where
  "thread_exit os l =
     (case cleanup_thread_entry os l of
        (r, l1, tr) \<Rightarrow> (l1\<lparr>listener_thread := Some Thread_finished\<rparr>, tr))"

definition clear_global_state :: "event_listener \<Rightarrow> event_listener" where
  "clear_global_state l =
     (let l1 = (if global_processing_queue l = processing_queue l
                then l\<lparr>processing_queue := False, global_processing_queue := False\<rparr>
                else l)
      in l1\<lparr>hook_handle := None, listener_thread_id := None, win_event_proc_ref := False\<rparr>)"

text \<open>
  A thread that is alive when a stop begins runs on while the stop runs. It may end by
  itself before the stop tests \<open>is_alive()\<close> (no \<open>join\<close> is made then), end within the
  timeout of the \<open>join\<close>, or outlive the \<open>join\<close>.
\<close>

datatype thread_fate = Ended_before_join | Ends_within_join | Outlives_join

text \<open>
  What \<open>EventListener.stop\<close> reads from outside: the result of \<open>PostThreadMessageW\<close>,
  what becomes of the listener thread, and what the thread is answered while it ends.
\<close>

record listener_stop_os =
  PostThreadMessageW :: "exn + bool"
  listener_thread_fate :: thread_fate
  thread_os :: listener_os

definition EventListener_stop ::
  "listener_stop_os \<Rightarrow> event_listener \<Rightarrow> event_listener \<times> lifecycle_event list" where
  "EventListener_stop os l =
     (if \<not> is_running l then (clear_global_state l, [Warning_listener_not_running])
      else let l1 = l\<lparr>is_running := False\<rparr>;
               tr1 = (case listener_thread_id l1 of
                        None \<Rightarrow> [Warning_no_thread_id]
                      | Some tid \<Rightarrow>
                          (case PostThreadMessageW os of
                             Inl e \<Rightarrow> [Call_PostThreadMessageW tid, Error_listener e]
                           | Inr success \<Rightarrow>
                               if success then [Call_PostThreadMessageW tid]
                               else [Call_PostThreadMessageW tid,
                                     Error_PostThreadMessageW_failed]));
               (l2, tr2) =
                 (if is_alive (listener_thread l1)
                  then (case listener_thread_fate os of
                          Ended_before_join \<Rightarrow> thread_exit (thread_os os) l1
                        | Ends_within_join \<Rightarrow>
                            (case thread_exit (thread_os os) l1 of
                               (l', tr') \<Rightarrow> (l', Join_listener_thread # tr'))
                        | Outlives_join \<Rightarrow>
                            (l1, [Join_listener_thread, Warning_listener_join_timeout]))
                  else (l1, []))
           in (clear_global_state l2, tr1 @ tr2))"

section \<open>\<open>PowerSwitcherApp\<close>: the lifecycle coordinator\<close>

text \<open>
  The coordinator holds the queue, the listener, the processing thread and the running
  flag. (The state of the engine belongs to the processing thread; it is the
  \<open>engine_state\<close> of the loop above.)
\<close>

record power_switcher_app =
  event_queue :: event_queue
  event_listener :: event_listener
  processing_thread :: "thread option"
  running :: bool

definition PowerSwitcherApp_init :: power_switcher_app where
  "PowerSwitcherApp_init =
     \<lparr>event_queue = Queue 100, event_listener = EventListener_init,
      processing_thread = None, running = False\<rparr>"

text \<open>
  While \<open>stop\<close> runs, the other two threads go on using the queue: the processing
  thread takes items off it (the sentinel among them) and the callback publishes names
  into it.
\<close>

datatype queue_action = Consumer_get | Publisher_put string

fun queue_actions :: "queue_action list \<Rightarrow> event_queue \<Rightarrow> event_queue" where
  "queue_actions [] q = q"
| "queue_actions (Consumer_get # acts) q = queue_actions acts (snd (get_nowait q))"
| "queue_actions (Publisher_put name # acts) q =
     queue_actions acts
       (case global_win_event_callback (Some q) (Some name) of
          (r, None) \<Rightarrow> q
        | (r, Some q') \<Rightarrow> q')"

text \<open>
  What \<open>stop\<close> reads from outside: what the other threads do to the queue before the
  sentinel is put and between then and the return, what \<open>EventListener.stop\<close> reads, and
  what becomes of the processing thread.
\<close>

record stop_os =
  before_sentinel :: "queue_action list"
  listener_stop :: listener_stop_os
  during_cleanup :: "queue_action list"
  processing_thread_fate :: thread_fate

definition cleanup_threads_and_hooks ::
  "stop_os \<Rightarrow> power_switcher_app \<Rightarrow> power_switcher_app \<times> lifecycle_event list" where
  "cleanup_threads_and_hooks os app =
     (let (l, tr1) = EventListener_stop (listener_stop os) (event_listener app);
          app1 = app\<lparr>event_listener := l,
                     event_queue := queue_actions (during_cleanup os) (event_queue app)\<rparr>
      in if is_alive (processing_thread app1)
         then (case processing_thread_fate os of
                 Ended_before_join \<Rightarrow>
                   (app1\<lparr>processing_thread := Some Thread_finished\<rparr>,
                    Call_EventListener_stop # tr1)
               | Ends_within_join \<Rightarrow>
                   (app1\<lparr>processing_thread := Some Thread_finished\<rparr>,
                    Call_EventListener_stop # tr1 @ [Join_processing_thread])
               | Outlives_join \<Rightarrow>
                   (app1, Call_EventListener_stop # tr1
                            @ [Join_processing_thread, Error_processing_join_timeout]))
         else (app1, Call_EventListener_stop # tr1))"

definition PowerSwitcherApp_stop ::
  "stop_os \<Rightarrow> power_switcher_app \<Rightarrow> power_switcher_app \<times> lifecycle_event list" where
  "PowerSwitcherApp_stop os app =
     (if \<not> running app
      then (case cleanup_threads_and_hooks os app of
              (app', tr) \<Rightarrow> (app', Warning_already_stopped # tr))
      else let app1 = app\<lparr>running := False,
                         event_queue := queue_actions (before_sentinel os) (event_queue app)\<rparr>;
               (app2, tr1) =
                 (case put_nowait (event_queue app1) None of
                    Inl e \<Rightarrow> (app1, [Warning_queue_full])
                  | Inr q \<Rightarrow> (app1\<lparr>event_queue := q\<rparr>, [Put_sentinel]))
           in case cleanup_threads_and_hooks os app2 of
                (app', tr) \<Rightarrow> (app', tr1 @ tr))"

text \<open>
  \<open>PowerSwitcherApp.start\<close>, from step 4 on (the steps before reload the configuration
  and log, and decide nothing): the only failure it looks for is an exception of
  \<open>EventListener.start\<close>. It does not wait for the listener thread and reads nothing
  the thread writes.
\<close>

record start_os =
  listener_thread_start_error :: "exn option"
  processing_thread_start_error :: "exn option"
  stop_on_failure :: stop_os

definition PowerSwitcherApp_start ::
  "start_os \<Rightarrow> power_switcher_app \<Rightarrow> (exn + bool) \<times> power_switcher_app \<times> lifecycle_event list" where
  "PowerSwitcherApp_start os app =
     (case EventListener_start (event_listener app) (listener_thread_start_error os) of
        (Inl e, l) \<Rightarrow>
          (case PowerSwitcherApp_stop (stop_on_failure os) (app\<lparr>event_listener := l\<rparr>) of
             (app', tr) \<Rightarrow>
               (Inl (Exception ''Failed to start EventListener, exiting.''), app',
                Critical_listener_start_failed e # tr))
      | (Inr u, l) \<Rightarrow>
          (let app1 = app\<lparr>event_listener := l, running := True,
                         processing_thread := Some Thread_created\<rparr>
           in case processing_thread_start_error os of
                Some e \<Rightarrow> (Inl e, app1, [])
              | None \<Rightarrow> (Inr True, app1\<lparr>processing_thread := Some Thread_alive\<rparr>, [])))"

text \<open>
  A start-up in which the listener thread runs \<open>_thread_entry\<close> as soon as it has been
  started: the result of \<open>start\<close>, and the phase the listener thread is in afterwards.
\<close>

definition startup ::
  "start_os \<Rightarrow> listener_os \<Rightarrow> power_switcher_app
     \<Rightarrow> (exn + bool) \<times> thread_phase option \<times> power_switcher_app" where
  "startup os los app =
     (case PowerSwitcherApp_start os app of
        (r, app1, tr) \<Rightarrow>
          if is_alive (listener_thread (event_listener app1))
          then (case thread_entry los (event_listener app1) of
                  (In_message_loop, l, tr') \<Rightarrow> (r, Some In_message_loop, app1\<lparr>event_listener := l\<rparr>)
                | (ph, l, tr') \<Rightarrow>
                    (r, Some ph,
                     app1\<lparr>event_listener := l\<lparr>listener_thread := Some Thread_finished\<rparr>\<rparr>))
          else (r, None, app1))"

section \<open>Notions used by the properties\<close>

text \<open>
  A run of consecutive events that all carry the same process name, each consumed while
  the running flag is set; the collaborators may answer differently at each event.
\<close>

definition same_name_run :: "string \<Rightarrow> collaborators list \<Rightarrow> iteration list" where
  "same_name_run name cs =
     map (\<lambda>c. \<lparr>running_is_set = True, got = Process_name name, answers = c\<rparr>) cs"

text \<open>
  The coupling of the two plan trackers: when both are set, the known active identifier
  is the applied identifier in lower case.
\<close>

definition trackers_coupled :: "engine_state \<Rightarrow> bool" where
  "trackers_coupled s =
     (case last_applied_power_plan_identifier s of
        None \<Rightarrow> True
      | Some a \<Rightarrow>
          (case last_known_active_guid s of
             None \<Rightarrow> True
           | Some k \<Rightarrow> k = py_lower a))"



subsection \<open>A concrete installation\<close>

text \<open>
  One mapping, \<open>chrome.exe\<close> to the high performance plan, and the balanced plan as
  default; an operating system whose active plan is given and in which
  \<open>powercfg /setactive\<close> succeeds or fails as given.
\<close>

definition scenario_config :: config_manager where
  "scenario_config =
     \<lparr>app_power_map = [''chrome.exe'' \<mapsto> GUID_HIGH_PERFORMANCE],
      default_power_plan = Some GUID_BALANCED,
      log_level = Some ''INFO''\<rparr>"

definition scenario_power_manager :: power_cfg_manager where
  "scenario_power_manager =
     \<lparr>name_to_guid_map = [''balanced'' \<mapsto> GUID_BALANCED],
      guid_to_name_map = [GUID_BALANCED \<mapsto> ''Balanced'']\<rparr>"

definition powercfg :: "string \<Rightarrow> bool \<Rightarrow> subprocess_run" where
  "powercfg active switch_ok command =
     (if command = [POWERCARD_COMMAND, GET_ACTIVE_SCHEME_ARG]
      then Inr \<lparr>returncode = 0, stdout = ''Power Scheme GUID: '' @ active @ ''  (Plan)'',
                stderr = []\<rparr>
      else if switch_ok then Inr \<lparr>returncode = 0, stdout = [], stderr = []\<rparr>
      else Inr \<lparr>returncode = 1, stdout = [], stderr = ''Access denied''\<rparr>)"

definition scenario_collaborators :: "string \<Rightarrow> bool \<Rightarrow> collaborators" where
  "scenario_collaborators active switch_ok =
     app_collaborators scenario_config scenario_power_manager (powercfg active switch_ok)"

subsection \<open>Situations used as examples\<close>

text \<open>
  Collaborators whose query of the active plan raises; two states of the engine; an
  active plan reported in upper case; a listener thread whose calls succeed. Three
  stops: one in which both threads end within their \<open>join\<close> and the processing thread
  takes the sentinel, one in which both threads outlive their \<open>join\<close>, and one in which
  the processing thread has ended before it is tested. A started application; the same
  application with its flag still clear, as it is between steps 4 and 5 of \<open>start\<close>;
  and the started application after a stop that both threads outlived.
\<close>

definition failing_collaborators :: collaborators where
  "failing_collaborators =
     (scenario_collaborators GUID_POWER_SAVER True)
       \<lparr>get_active_scheme_guid := Inl (Exception ''powercfg is gone'')\<rparr>"

definition chrome_seen :: engine_state where
  "chrome_seen = initial_engine_state\<lparr>last_processed_process := Some ''chrome.exe''\<rparr>"

definition high_performance_applied :: engine_state where
  "high_performance_applied =
     \<lparr>last_processed_process = Some ''chrome.exe'',
      last_applied_power_plan_identifier = Some GUID_HIGH_PERFORMANCE,
      last_known_active_guid = Some GUID_HIGH_PERFORMANCE\<rparr>"

definition ACTIVE_IN_UPPER_CASE :: string where
  "ACTIVE_IN_UPPER_CASE = ''8C5E7FDA-E8BF-4A96-9A85-A6E23A8C635C''"









section \<open>Properties\<close>

subsection \<open>Strings\<close>

lemma py_strip_Nil: "py_strip [] = []"
  by (simp add: py_strip_def)

lemma dropWhile_prefix_of_dropWhile:
  assumes "dropWhile P s = t @ r"
  shows "dropWhile P t = t"
proof (cases t)
  case Nil
  then show ?thesis by simp
next
  case (Cons x xs)
  then have "hd (dropWhile P s) = x" "dropWhile P s \<noteq> []" using assms by simp_all
  then have "\<not> P x" using hd_dropWhile[of P s] by auto
  then show ?thesis using Cons by simp
qed

lemma py_strip_idem: "py_strip (py_strip s) = py_strip s"
proof -
  let ?ys = "dropWhile py_isspace s"
  let ?zs = "dropWhile py_isspace (rev ?ys)"
  have "rev (takeWhile py_isspace (rev ?ys) @ ?zs) = rev (rev ?ys)"
    by (simp only: takeWhile_dropWhile_id)
  then have "?ys = rev ?zs @ rev (takeWhile py_isspace (rev ?ys))"
    by (simp only: rev_append rev_rev_ident)
  then have "dropWhile py_isspace (rev ?zs) = rev ?zs"
    by (rule dropWhile_prefix_of_dropWhile)
  then show ?thesis by (simp add: py_strip_def)
qed

lemma update_general_settings_default_stripped:
  "default_power_plan (update_general_settings cfg (Some g) l) = Some d \<Longrightarrow> py_strip d = d"
  by (auto simp add: update_general_settings_def Let_def py_strip_idem split: option.splits if_splits)

subsection \<open>The channel\<close>

lemma publish_all_bounded:
  assumes "0 < k" "[] \<notin> set names" "maxsize q = int k" "length (items q) \<le> k"
  shows "publish_all q names =
           (replicate (min (k - length (items q)) (length names)) Delivered
              @ replicate (length names - (k - length (items q))) Dropped,
            q\<lparr>items := items q @ map Some (take (k - length (items q)) names)\<rparr>)"
  using assms
proof (induction names arbitrary: q)
  case Nil
  then show ?case by simp
next
  case (Cons name names)
  show ?case
  proof (cases "length (items q) < k")
    case True
    let ?q' = "q\<lparr>items := items q @ [Some name]\<rparr>"
    have put: "put_nowait q (Some name) = Inr ?q'"
      using True Cons.prems by (simp add: put_nowait_def full_def)
    have ih: "publish_all ?q' names = (replicate (min (k - length (items ?q')) (length names)) Delivered
              @ replicate (length names - (k - length (items ?q'))) Dropped,
            ?q'\<lparr>items := items ?q' @ map Some (take (k - length (items ?q')) names)\<rparr>)"
      using Cons.prems True by (intro Cons.IH) auto
    obtain d where d: "k - length (items q) = Suc d" using True by (cases "k - length (items q)") auto
    then have d': "k - Suc (length (items q)) = d" by simp
    have ne: "name \<noteq> []" using Cons.prems by auto
    show ?thesis using ne put ih d d'
      by (simp add: global_win_event_callback_def)
  next
    case False
    then have eq: "length (items q) = k" using Cons.prems by simp
    have put: "put_nowait q (Some name) = Inl Queue_Full"
      using eq Cons.prems by (simp add: put_nowait_def full_def)
    have ih: "publish_all q names = (replicate (min (k - length (items q)) (length names)) Delivered
              @ replicate (length names - (k - length (items q))) Dropped,
            q\<lparr>items := items q @ map Some (take (k - length (items q)) names)\<rparr>)"
      using Cons.prems by (intro Cons.IH) auto
    have ne: "name \<noteq> []" using Cons.prems by auto
    show ?thesis using ne put ih eq
      by (simp add: global_win_event_callback_def)
  qed
qed

lemma receive_all_items: "length (items q) \<le> n \<Longrightarrow> receive_all n q = items q"
proof (induction n arbitrary: q)
  case 0
  then show ?case by simp
next
  case (Suc n)
  then show ?case by (cases "items q") (auto simp: get_nowait_def)
qed

text \<open>
  C6: publishing never waits. When the queue is at capacity the callback drops the name
  it was about to publish and leaves the queue as it was. Into an empty queue of
  capacity \<open>k\<close>, publishing more than \<open>k\<close> names with no receive in between delivers
  the first \<open>k\<close> and drops the rest, and the receiver gets exactly the first \<open>k\<close>
  names in the order of publication. (A capacity is positive: \<open>queue.Queue\<close> reads a
  \<open>maxsize\<close> of 0 as no bound; the names are not empty, as the callback publishes no
  empty name.)
\<close>

theorem full_channel_drops_newest:
  assumes "0 < k" and "k < length names" and "[] \<notin> set names"
  shows "(\<forall>q name. full q \<and> name \<noteq> [] \<longrightarrow>
            global_win_event_callback (Some q) (Some name) = (Dropped, Some q))
     \<and> publish_all (Queue (int k)) names =
          (replicate k Delivered @ replicate (length names - k) Dropped,
           \<lparr>maxsize = int k, items = map Some (take k names)\<rparr>)
     \<and> receive_all (length names) (snd (publish_all (Queue (int k)) names)) =
          map Some (take k names)"
proof -
  have drop: "global_win_event_callback (Some q) (Some name) = (Dropped, Some q)"
    if "full q" "name \<noteq> []" for q :: event_queue and name
    using that by (simp add: global_win_event_callback_def put_nowait_def)
  have pub: "publish_all (Queue (int k)) names =
          (replicate k Delivered @ replicate (length names - k) Dropped,
           \<lparr>maxsize = int k, items = map Some (take k names)\<rparr>)"
    using publish_all_bounded[of k names "Queue (int k)"] assms
    by (simp add: Queue_def min_def)
  have rcv: "receive_all (length names) (snd (publish_all (Queue (int k)) names)) =
          map Some (take k names)"
    using assms(2) by (simp add: pub receive_all_items)
  show ?thesis using drop pub rcv by blast
qed

text \<open>
  Capacity 2 and three publications: the third is dropped and the first two remain in
  order.
\<close>

theorem full_channel_drops_newest_witness:
  "(0::nat) < 2 \<and> 2 < length [''a.exe'', ''b.exe'', ''c.exe'']
   \<and> [] \<notin> set [''a.exe'', ''b.exe'', ''c.exe'']
   \<and> full \<lparr>maxsize = 2, items = [Some ''a.exe'', Some ''b.exe'']\<rparr> \<and> ''c.exe'' \<noteq> []
   \<and> global_win_event_callback (Some \<lparr>maxsize = 2, items = [Some ''a.exe'', Some ''b.exe'']\<rparr>)
         (Some ''c.exe'') =
       (Dropped, Some \<lparr>maxsize = 2, items = [Some ''a.exe'', Some ''b.exe'']\<rparr>)
   \<and> publish_all (Queue 2) [''a.exe'', ''b.exe'', ''c.exe''] =
       ([Delivered, Delivered, Dropped],
        \<lparr>maxsize = 2, items = [Some ''a.exe'', Some ''b.exe'']\<rparr>)
   \<and> receive_all 3 (snd (publish_all (Queue 2) [''a.exe'', ''b.exe'', ''c.exe''])) =
       [Some ''a.exe'', Some ''b.exe'']"
proof -
  have h1: "(0::nat) < 2" by simp
  have h2: "2 < length [''a.exe'', ''b.exe'', ''c.exe'']" by simp
  have h3: "[] \<notin> set [''a.exe'', ''b.exe'', ''c.exe'']" by simp
  have h4: "full \<lparr>maxsize = 2, items = [Some ''a.exe'', Some ''b.exe'']\<rparr>"
    by (simp add: full_def)
  have h5: "''c.exe'' \<noteq> []" by simp
  have e1: "int 2 = 2" by simp
  have e2: "replicate 2 Delivered @ replicate (length [''a.exe'', ''b.exe'', ''c.exe''] - 2) Dropped =
            [Delivered, Delivered, Dropped]"
    by (simp add: numeral_2_eq_2)
  have e3: "map Some (take 2 [''a.exe'', ''b.exe'', ''c.exe'']) = [Some ''a.exe'', Some ''b.exe'']"
    by (simp add: numeral_2_eq_2)
  have e4: "length [''a.exe'', ''b.exe'', ''c.exe''] = 3" by simp
  note t = full_channel_drops_newest[OF h1 h2 h3]
  have d: "global_win_event_callback (Some \<lparr>maxsize = 2, items = [Some ''a.exe'', Some ''b.exe'']\<rparr>)
         (Some ''c.exe'') =
       (Dropped, Some \<lparr>maxsize = 2, items = [Some ''a.exe'', Some ''b.exe'']\<rparr>)"
    using t[THEN conjunct1, rule_format, OF conjI[OF h4 h5]] .
  have b: "publish_all (Queue 2) [''a.exe'', ''b.exe'', ''c.exe''] =
       ([Delivered, Delivered, Dropped],
        \<lparr>maxsize = 2, items = [Some ''a.exe'', Some ''b.exe'']\<rparr>)"
    using t[THEN conjunct2, THEN conjunct1] by (simp only: e1 e2 e3)
  have c: "receive_all 3 (snd (publish_all (Queue 2) [''a.exe'', ''b.exe'', ''c.exe''])) =
       [Some ''a.exe'', Some ''b.exe'']"
    using t[THEN conjunct2, THEN conjunct2] by (simp only: e1 e3 e4)
  show ?thesis
    by (intro conjI h1 h2 h3 h4 h5 d b c)
qed

subsection \<open>One iteration of the engine\<close>

lemma clean_target_cases:
  "clean_target g tr = (Inr None, tr @ [Warning_target_empty]) \<or>
   clean_target g tr = (Inr (Some (py_strip g)), tr)"
  by (simp add: clean_target_def Let_def)

lemma clean_target_no_exn: "fst (clean_target g tr) \<noteq> Inl e"
  by (simp add: clean_target_def Let_def)

lemma resolve_target_resolution_calls:
  "filter is_resolution_call (snd (resolve_target c n)) = [Call_get_power_plan_for_process n]"
  by (simp add: resolve_target_def clean_target_def Let_def split: sum.splits option.splits)

lemma resolve_target_no_power_calls:
  "filter is_power_controller_call (snd (resolve_target c n)) = []"
  by (simp add: resolve_target_def clean_target_def Let_def split: sum.splits option.splits)

lemma resolve_target_no_switch:
  "filter is_switch_call (snd (resolve_target c n)) = []"
  by (simp add: resolve_target_def clean_target_def Let_def split: sum.splits option.splits)

lemma lookup_names_trace:
  assumes "lookup_names c a t = (r, tr)"
  shows "filter is_switch_call tr = []" and "filter is_resolution_call tr = []"
  using assms by (auto simp add: lookup_names_def split: sum.splits)

lemma compare_and_switch_resolution_calls:
  assumes "compare_and_switch c t s = (r, s', tr)"
  shows "filter is_resolution_call tr = []"
  using assms
  by (auto simp add: compare_and_switch_def split: sum.splits option.splits prod.splits if_splits
      dest: lookup_names_trace(2))

lemma compare_and_switch_switch_calls:
  assumes "compare_and_switch c t s = (r, s', tr)"
  shows "filter is_switch_call tr = [] \<or> filter is_switch_call tr = [Call_switch_power_plan t]"
  using assms
  by (auto simp add: compare_and_switch_def split: sum.splits option.splits prod.splits if_splits
      dest: lookup_names_trace(1))

lemma compare_and_switch_state:
  assumes "compare_and_switch c t s = (r, s', tr)"
  shows "s' = s \<or> s' = record_plan t s"
  using assms
  by (auto simp add: compare_and_switch_def split: sum.splits option.splits prod.splits if_splits)

lemma process_item_duplicate:
  "last_processed_process s = Some n \<Longrightarrow> process_item c n s = (Inr (), s, [])"
  by (simp add: process_item_def)

lemma process_item_last_processed:
  assumes "process_item c n s = (r, s', tr)"
  shows "last_processed_process s' = Some n"
  using assms
  by (auto simp add: process_item_def Let_def record_plan_def
      split: sum.splits option.splits prod.splits if_splits
      dest!: compare_and_switch_state)

lemma process_item_resolution_calls:
  assumes "process_item c n s = (r, s', tr)"
  shows "filter is_resolution_call tr = [] \<or>
         filter is_resolution_call tr = [Call_get_power_plan_for_process n]"
  using assms resolve_target_resolution_calls[of c n]
  by (auto simp add: process_item_def Let_def
      split: sum.splits option.splits prod.splits if_splits
      dest!: compare_and_switch_resolution_calls)

lemma process_item_resolution_calls_first:
  assumes "process_item c n s = (r, s', tr)" "last_processed_process s \<noteq> Some n"
  shows "filter is_resolution_call tr = [Call_get_power_plan_for_process n]"
  using assms resolve_target_resolution_calls[of c n]
  by (auto simp add: process_item_def Let_def
      split: sum.splits option.splits prod.splits if_splits
      dest!: compare_and_switch_resolution_calls)

lemma process_item_switch_calls:
  assumes "process_item c n s = (r, s', tr)"
  shows "length (filter is_switch_call tr) \<le> 1"
  using assms resolve_target_no_switch[of c n]
  by (auto simp add: process_item_def Let_def
      split: sum.splits option.splits prod.splits if_splits
      dest!: compare_and_switch_switch_calls)

lemma process_item_trackers:
  assumes "process_item c n s = (r, s', tr)"
  shows "(last_applied_power_plan_identifier s' = last_applied_power_plan_identifier s \<and>
          last_known_active_guid s' = last_known_active_guid s) \<or>
         (\<exists>t. last_applied_power_plan_identifier s' = Some t \<and>
              last_known_active_guid s' = Some (py_lower t))"
  using assms
  by (auto simp add: process_item_def Let_def record_plan_def
      split: sum.splits option.splits prod.splits if_splits
      dest!: compare_and_switch_state)

lemma process_item_coupled:
  assumes "process_item c n s = (r, s', tr)" "trackers_coupled s"
  shows "trackers_coupled s'"
  using process_item_trackers[OF assms(1)] assms(2)
  by (auto simp add: trackers_coupled_def split: option.splits)

lemma app_collaborators_lookup_names:
  "fst (lookup_names (app_collaborators cfg pm run) active target) = Inr ()"
  by (simp add: lookup_names_def app_collaborators_def)

subsection \<open>The loop\<close>

lemma process_queue_coupled:
  assumes "process_queue its s = (st, s', tr)" "trackers_coupled s"
  shows "trackers_coupled s'"
  using assms
proof (induction its arbitrary: s st s' tr)
  case Nil
  then show ?case by simp
next
  case (Cons it its)
  show ?case
  proof (cases "running_is_set it")
    case False
    with Cons.prems show ?thesis by simp
  next
    case True
    show ?thesis
    proof (cases "got it")
      case Timeout
      with True Cons show ?thesis by simp
    next
      case Sentinel
      with True Cons.prems show ?thesis by simp
    next
      case (Process_name n)
      obtain r s1 tr1 where step: "process_item (answers it) n s = (r, s1, tr1)"
        by (cases "process_item (answers it) n s") auto
      obtain st2 s2 tr2 where rest: "process_queue its s1 = (st2, s2, tr2)"
        by (cases "process_queue its s1") auto
      have c1: "trackers_coupled s1"
        using process_item_coupled[OF step Cons.prems(2)] .
      have "s' = s2"
        using Cons.prems(1) True Process_name step rest by (cases r) auto
      then show ?thesis using Cons.IH[OF rest c1] by simp
    qed
  qed
qed

lemma process_queue_same_name_idle:
  "last_processed_process s = Some name \<Longrightarrow>
   process_queue (same_name_run name cs) s = (Loop_running, s, [])"
  by (induction cs) (simp_all add: same_name_run_def process_item_duplicate)

lemma process_queue_same_name_first:
  "process_queue (same_name_run name (c # cs)) s = process_queue (same_name_run name [c]) s"
proof -
  obtain r s1 tr where step: "process_item c name s = (r, s1, tr)"
    by (cases "process_item c name s") auto
  have last: "last_processed_process s1 = Some name"
    using process_item_last_processed[OF step] .
  have rest: "process_queue (same_name_run name cs) s1 = (Loop_running, s1, [])"
    using process_queue_same_name_idle[OF last] .
  have tl: "same_name_run name (c # cs) =
      \<lparr>running_is_set = True, got = Process_name name, answers = c\<rparr> # same_name_run name cs"
    by (simp add: same_name_run_def)
  show ?thesis
    unfolding tl using step rest by (cases r) (simp_all add: same_name_run_def)
qed

lemma process_queue_single:
  assumes "process_item c name s = (r, s1, tr)"
  shows "process_queue (same_name_run name [c]) s =
           (Loop_running, s1, tr @ (case r of Inl e \<Rightarrow> handle_exception e | Inr u \<Rightarrow> []))"
  using assms by (cases r) (simp_all add: same_name_run_def)

lemma handle_exception_filters:
  "filter is_switch_call (handle_exception e) = []"
  "filter is_resolution_call (handle_exception e) = []"
  by (simp_all add: handle_exception_def)

lemma process_queue_finished_iff:
  "fst (process_queue its s) = Loop_finished \<longleftrightarrow>
     (\<exists>it \<in> set its. \<not> running_is_set it \<or> got it = Sentinel)"
proof (induction its arbitrary: s)
  case Nil
  then show ?case by simp
next
  case (Cons it its)
  show ?case
  proof (cases "running_is_set it")
    case False
    then show ?thesis by simp
  next
    case True
    show ?thesis
    proof (cases "got it")
      case Timeout
      with True Cons.IH[of s] show ?thesis by simp
    next
      case Sentinel
      with True show ?thesis by simp
    next
      case (Process_name n)
      obtain r s1 tr1 where step: "process_item (answers it) n s = (r, s1, tr1)"
        by (cases "process_item (answers it) n s") auto
      have "fst (process_queue (it # its) s) = fst (process_queue its s1)"
        using True Process_name step by (cases r) (simp_all split: prod.splits)
      then show ?thesis using Cons.IH[of s1] True Process_name by simp
    qed
  qed
qed

subsection \<open>The examples, evaluated\<close>

text \<open>
  Scenario A of the specification, with the switch succeeding and failing; scenario C
  (an unknown process falls back to the default plan); scenario E (the active plan
  differs from the target in case only); an iteration in which the query of the active
  plan raises, and the iteration after it.
\<close>

lemma scenario_a:
  "process_item (scenario_collaborators GUID_POWER_SAVER True) ''chrome.exe'' initial_engine_state =
     (Inr (), high_performance_applied,
      [Call_get_power_plan_for_process ''chrome.exe'', Call_get_active_scheme_guid,
       Call_get_power_plan_name_from_guid GUID_POWER_SAVER,
       Call_get_power_plan_name_from_guid GUID_HIGH_PERFORMANCE,
       Call_switch_power_plan GUID_HIGH_PERFORMANCE])"
  by code_simp

lemma scenario_a_failed:
  "process_item (scenario_collaborators GUID_POWER_SAVER False) ''chrome.exe''
     initial_engine_state =
     (Inr (), chrome_seen,
      [Call_get_power_plan_for_process ''chrome.exe'', Call_get_active_scheme_guid,
       Call_get_power_plan_name_from_guid GUID_POWER_SAVER,
       Call_get_power_plan_name_from_guid GUID_HIGH_PERFORMANCE,
       Call_switch_power_plan GUID_HIGH_PERFORMANCE, Error_switch_failed])"
  by code_simp

lemma scenario_c:
  "process_item (scenario_collaborators GUID_POWER_SAVER True) ''unknown.exe''
     initial_engine_state =
     (Inr (),
      \<lparr>last_processed_process = Some ''unknown.exe'',
       last_applied_power_plan_identifier = Some GUID_BALANCED,
       last_known_active_guid = Some GUID_BALANCED\<rparr>,
      [Call_get_power_plan_for_process ''unknown.exe'', Call_get_default_power_plan,
       Call_get_active_scheme_guid,
       Call_get_power_plan_name_from_guid GUID_POWER_SAVER,
       Call_get_power_plan_name_from_guid GUID_BALANCED,
       Call_switch_power_plan GUID_BALANCED])"
  by code_simp

lemma scenario_e:
  "process_item (scenario_collaborators ACTIVE_IN_UPPER_CASE True) ''chrome.exe''
     initial_engine_state =
     (Inr (), high_performance_applied,
      [Call_get_power_plan_for_process ''chrome.exe'', Call_get_active_scheme_guid,
       Call_get_power_plan_name_from_guid ACTIVE_IN_UPPER_CASE,
       Call_get_power_plan_name_from_guid GUID_HIGH_PERFORMANCE])"
  by code_simp

lemma failing_item:
  "process_item failing_collaborators ''chrome.exe'' initial_engine_state =
     (Inl (Exception ''powercfg is gone''), chrome_seen,
      [Call_get_power_plan_for_process ''chrome.exe'', Call_get_active_scheme_guid])"
  by code_simp

lemma item_after_failure:
  "process_queue
     [\<lparr>running_is_set = True, got = Process_name ''unknown.exe'',
       answers = scenario_collaborators GUID_POWER_SAVER True\<rparr>] chrome_seen =
     (Loop_running,
      \<lparr>last_processed_process = Some ''unknown.exe'',
       last_applied_power_plan_identifier = Some GUID_BALANCED,
       last_known_active_guid = Some GUID_BALANCED\<rparr>,
      [Call_get_power_plan_for_process ''unknown.exe'', Call_get_default_power_plan,
       Call_get_active_scheme_guid,
       Call_get_power_plan_name_from_guid GUID_POWER_SAVER,
       Call_get_power_plan_name_from_guid GUID_BALANCED,
       Call_switch_power_plan GUID_BALANCED])"
  by code_simp

subsection \<open>Suppression of consecutive duplicates\<close>

text \<open>
  C2: a process name equal to the last processed name (equality of strings, case
  included) is discarded: the state is unchanged and no collaborator is called, so no
  plan is resolved and the power controller is not touched. Hence a run of consecutive
  events with one name behaves as its first event alone: the plan is resolved at most
  once (exactly once when the first event is not itself a duplicate) and there is at
  most one call of \<open>switch_power_plan\<close> in the whole run, whatever the collaborators
  answer.
\<close>

theorem duplicate_suppression:
  "(last_processed_process s = Some name \<longrightarrow> process_item c name s = (Inr (), s, []))
   \<and> process_queue (same_name_run name (c # cs)) s = process_queue (same_name_run name [c]) s
   \<and> length (filter is_resolution_call
         (snd (snd (process_queue (same_name_run name (c # cs)) s)))) \<le> 1
   \<and> (last_processed_process s \<noteq> Some name \<longrightarrow>
        filter is_resolution_call (snd (snd (process_queue (same_name_run name (c # cs)) s))) =
          [Call_get_power_plan_for_process name])
   \<and> length (filter is_switch_call
         (snd (snd (process_queue (same_name_run name (c # cs)) s)))) \<le> 1"
proof -
  obtain r s1 tr where step: "process_item c name s = (r, s1, tr)"
    by (cases "process_item c name s") auto
  have run: "process_queue (same_name_run name (c # cs)) s =
           (Loop_running, s1, tr @ (case r of Inl e \<Rightarrow> handle_exception e | Inr u \<Rightarrow> []))"
    using process_queue_same_name_first[of name c cs s] process_queue_single[OF step] by simp
  have res: "length (filter is_resolution_call tr) \<le> 1"
    using process_item_resolution_calls[OF step] by auto
  have res1: "filter is_resolution_call tr = [Call_get_power_plan_for_process name]"
    if "last_processed_process s \<noteq> Some name"
    using process_item_resolution_calls_first[OF step that] .
  have sw: "length (filter is_switch_call tr) \<le> 1"
    using process_item_switch_calls[OF step] .
  show ?thesis
    using run res res1 sw process_queue_same_name_first[of name c cs s]
    by (cases r) (simp_all add: process_item_duplicate handle_exception_filters)
qed

text \<open>
  Scenario B: \<open>chrome.exe\<close> twice in a row switches once. A state that has just
  processed \<open>chrome.exe\<close> discards the next \<open>chrome.exe\<close>, and resolves a plan for
  \<open>Chrome.exe\<close>, which differs in case.
\<close>

theorem duplicate_suppression_witness:
  "last_processed_process chrome_seen = Some ''chrome.exe''
   \<and> process_item (scenario_collaborators GUID_POWER_SAVER True) ''chrome.exe'' chrome_seen =
       (Inr (), chrome_seen, [])
   \<and> process_queue (same_name_run ''chrome.exe''
         [scenario_collaborators GUID_POWER_SAVER True,
          scenario_collaborators GUID_HIGH_PERFORMANCE True]) initial_engine_state =
       process_queue (same_name_run ''chrome.exe'' [scenario_collaborators GUID_POWER_SAVER True])
         initial_engine_state
   \<and> filter is_switch_call (snd (snd (process_queue (same_name_run ''chrome.exe''
         [scenario_collaborators GUID_POWER_SAVER True,
          scenario_collaborators GUID_HIGH_PERFORMANCE True]) initial_engine_state))) =
       [Call_switch_power_plan GUID_HIGH_PERFORMANCE]
   \<and> last_processed_process chrome_seen \<noteq> Some ''Chrome.exe''
   \<and> filter is_resolution_call (snd (snd (process_queue (same_name_run ''Chrome.exe''
         [scenario_collaborators GUID_POWER_SAVER True]) chrome_seen))) =
       [Call_get_power_plan_for_process ''Chrome.exe'']"
proof -
  have seen: "last_processed_process chrome_seen = Some ''chrome.exe''"
    by (simp add: chrome_seen_def)
  have other: "last_processed_process chrome_seen \<noteq> Some ''Chrome.exe''"
    by (simp add: chrome_seen_def)
  have first: "filter is_switch_call (snd (snd (process_queue (same_name_run ''chrome.exe''
         [scenario_collaborators GUID_POWER_SAVER True]) initial_engine_state))) =
       [Call_switch_power_plan GUID_HIGH_PERFORMANCE]"
    by (simp add: same_name_run_def scenario_a)
  show ?thesis
    using seen first other
      duplicate_suppression[of chrome_seen "''Chrome.exe''"
        "scenario_collaborators GUID_POWER_SAVER True" "[]"]
      duplicate_suppression[of chrome_seen "''chrome.exe''"
        "scenario_collaborators GUID_POWER_SAVER True" "[]"]
      duplicate_suppression[of initial_engine_state "''chrome.exe''"
        "scenario_collaborators GUID_POWER_SAVER True"
        "[scenario_collaborators GUID_HIGH_PERFORMANCE True]"]
    by simp
qed

subsection \<open>The active plan is already the target\<close>

text \<open>
  C3: when the event is not a duplicate, a target is resolved, the active plan is known
  and equals the target without regard to case, \<open>switch_power_plan\<close> is not called.
  The two trackers are set to the target and to the target in lower case only if the
  known active identifier was not the target in lower case already (and the two look-ups
  of friendly names that precede the assignment returned); otherwise they are left as
  they were.
\<close>

theorem matching_plan_is_not_switched:
  assumes "last_processed_process s \<noteq> Some name"
    and "fst (resolve_target c name) = Inr (Some target)"
    and "get_active_scheme_guid c = Inr (Some active)"
    and "active \<noteq> []"
    and "py_lower active = py_lower target"
  shows "filter is_switch_call (snd (snd (process_item c name s))) = []
     \<and> fst (snd (process_item c name s)) =
         (if last_known_active_guid s \<noteq> Some (py_lower target)
             \<and> fst (lookup_names c active target) = Inr ()
          then record_plan target (s\<lparr>last_processed_process := Some name\<rparr>)
          else s\<lparr>last_processed_process := Some name\<rparr>)"
proof -
  obtain tr where res: "resolve_target c name = (Inr (Some target), tr)"
    using assms(2) by (cases "resolve_target c name") auto
  have tr: "filter is_switch_call tr = []"
    using resolve_target_no_switch[of c name] res by simp
  obtain r ltr where lk: "lookup_names c active target = (r, ltr)"
    by (cases "lookup_names c active target") auto
  have ltr: "filter is_switch_call ltr = []"
    using lookup_names_trace(1)[OF lk] .
  show ?thesis
    using assms(1,3,4,5) res tr lk ltr
    by (cases r) (auto simp add: process_item_def compare_and_switch_def Let_def record_plan_def)
qed

text \<open>
  Scenario E: the active plan is the target in upper case. From the initial state the
  trackers are set; from a state that already holds the target they stay as they are.
\<close>

theorem matching_plan_is_not_switched_witness:
  "last_processed_process initial_engine_state \<noteq> Some ''chrome.exe''
   \<and> fst (resolve_target (scenario_collaborators ACTIVE_IN_UPPER_CASE True) ''chrome.exe'') =
       Inr (Some GUID_HIGH_PERFORMANCE)
   \<and> get_active_scheme_guid (scenario_collaborators ACTIVE_IN_UPPER_CASE True) =
       Inr (Some ACTIVE_IN_UPPER_CASE)
   \<and> ACTIVE_IN_UPPER_CASE \<noteq> []
   \<and> py_lower ACTIVE_IN_UPPER_CASE = py_lower GUID_HIGH_PERFORMANCE
   \<and> filter is_switch_call
        (snd (snd (process_item (scenario_collaborators ACTIVE_IN_UPPER_CASE True) ''chrome.exe''
           initial_engine_state))) = []
   \<and> fst (snd (process_item (scenario_collaborators ACTIVE_IN_UPPER_CASE True) ''chrome.exe''
         initial_engine_state)) = high_performance_applied
   \<and> fst (snd (process_item (scenario_collaborators ACTIVE_IN_UPPER_CASE True) ''chrome.exe''
         (high_performance_applied\<lparr>last_processed_process := Some ''notepad.exe''\<rparr>))) =
       high_performance_applied"
proof -
  let ?c = "scenario_collaborators ACTIVE_IN_UPPER_CASE True"
  let ?s = "high_performance_applied\<lparr>last_processed_process := Some ''notepad.exe''\<rparr>"
  have h1: "last_processed_process initial_engine_state \<noteq> Some ''chrome.exe''"
    by (simp add: initial_engine_state_def)
  have h1': "last_processed_process ?s \<noteq> Some ''chrome.exe''"
    by simp
  have h2: "fst (resolve_target ?c ''chrome.exe'') = Inr (Some GUID_HIGH_PERFORMANCE)"
    by code_simp
  have h3: "get_active_scheme_guid ?c = Inr (Some ACTIVE_IN_UPPER_CASE)"
    by code_simp
  have h4: "ACTIVE_IN_UPPER_CASE \<noteq> []"
    by (simp add: ACTIVE_IN_UPPER_CASE_def)
  have h5: "py_lower ACTIVE_IN_UPPER_CASE = py_lower GUID_HIGH_PERFORMANCE"
    by code_simp
  have agree: "last_known_active_guid ?s = Some (py_lower GUID_HIGH_PERFORMANCE)"
    by code_simp
  have same: "?s\<lparr>last_processed_process := Some ''chrome.exe''\<rparr> = high_performance_applied"
    by (simp add: high_performance_applied_def)
  show ?thesis
    using h1 h2 h3 h4 h5 scenario_e agree same
      matching_plan_is_not_switched[OF h1 h2 h3 h4 h5]
      matching_plan_is_not_switched[OF h1' h2 h3 h4 h5]
    by simp
qed

subsection \<open>The active plan differs from the target\<close>

text \<open>
  C4: when the event is not a duplicate, a target is resolved, the active plan is known
  and differs from the target even without regard to case, \<open>switch_power_plan\<close> is
  called exactly once, with the target. When the call returns \<open>True\<close> the applied
  identifier becomes the target and the known active identifier the target in lower
  case; when it returns \<open>False\<close> or raises, both trackers are left untouched, and the
  iteration makes no second call. (The two look-ups of friendly names for the log line
  come before the call; they return for the collaborators of the application, see
  \<open>app_collaborators_lookup_names\<close>.)
\<close>

theorem differing_plan_is_switched_once:
  assumes "last_processed_process s \<noteq> Some name"
    and "fst (resolve_target c name) = Inr (Some target)"
    and "get_active_scheme_guid c = Inr (Some active)"
    and "active \<noteq> []"
    and "py_lower active \<noteq> py_lower target"
    and "fst (lookup_names c active target) = Inr ()"
  shows "filter is_switch_call (snd (snd (process_item c name s))) = [Call_switch_power_plan target]
     \<and> fst (snd (process_item c name s)) =
         (if switch_power_plan c target = Inr True
          then (s\<lparr>last_processed_process := Some name,
                  last_applied_power_plan_identifier := Some target,
                  last_known_active_guid := Some (py_lower target)\<rparr>)
          else s\<lparr>last_processed_process := Some name\<rparr>)"
proof -
  obtain tr where res: "resolve_target c name = (Inr (Some target), tr)"
    using assms(2) by (cases "resolve_target c name") auto
  have tr: "filter is_switch_call tr = []"
    using resolve_target_no_switch[of c name] res by simp
  obtain ltr where lk: "lookup_names c active target = (Inr (), ltr)"
    using assms(6) by (cases "lookup_names c active target") auto
  have ltr: "filter is_switch_call ltr = []"
    using lookup_names_trace(1)[OF lk] .
  show ?thesis
    using assms(1,3,4,5) res tr lk ltr
    by (cases "switch_power_plan c target")
       (auto simp add: process_item_def compare_and_switch_def Let_def record_plan_def)
qed

text \<open>
  Scenario A, with \<open>powercfg /setactive\<close> succeeding and failing.
\<close>

theorem differing_plan_is_switched_once_witness:
  "last_processed_process initial_engine_state \<noteq> Some ''chrome.exe''
   \<and> fst (resolve_target (scenario_collaborators GUID_POWER_SAVER True) ''chrome.exe'') =
       Inr (Some GUID_HIGH_PERFORMANCE)
   \<and> get_active_scheme_guid (scenario_collaborators GUID_POWER_SAVER True) =
       Inr (Some GUID_POWER_SAVER)
   \<and> GUID_POWER_SAVER \<noteq> []
   \<and> py_lower GUID_POWER_SAVER \<noteq> py_lower GUID_HIGH_PERFORMANCE
   \<and> fst (lookup_names (scenario_collaborators GUID_POWER_SAVER True)
            GUID_POWER_SAVER GUID_HIGH_PERFORMANCE) = Inr ()
   \<and> filter is_switch_call
        (snd (snd (process_item (scenario_collaborators GUID_POWER_SAVER True) ''chrome.exe''
           initial_engine_state))) = [Call_switch_power_plan GUID_HIGH_PERFORMANCE]
   \<and> fst (snd (process_item (scenario_collaborators GUID_POWER_SAVER True) ''chrome.exe''
         initial_engine_state)) = high_performance_applied
   \<and> filter is_switch_call
        (snd (snd (process_item (scenario_collaborators GUID_POWER_SAVER False) ''chrome.exe''
           initial_engine_state))) = [Call_switch_power_plan GUID_HIGH_PERFORMANCE]
   \<and> fst (snd (process_item (scenario_collaborators GUID_POWER_SAVER False) ''chrome.exe''
         initial_engine_state)) = chrome_seen"
proof -
  let ?c = "scenario_collaborators GUID_POWER_SAVER True"
  let ?f = "scenario_collaborators GUID_POWER_SAVER False"
  have h1: "last_processed_process initial_engine_state \<noteq> Some ''chrome.exe''"
    by (simp add: initial_engine_state_def)
  have h2: "fst (resolve_target ?c ''chrome.exe'') = Inr (Some GUID_HIGH_PERFORMANCE)"
    by code_simp
  have h3: "get_active_scheme_guid ?c = Inr (Some GUID_POWER_SAVER)"
    by code_simp
  have h4: "GUID_POWER_SAVER \<noteq> []"
    by (simp add: GUID_POWER_SAVER_def)
  have h5: "py_lower GUID_POWER_SAVER \<noteq> py_lower GUID_HIGH_PERFORMANCE"
    by code_simp
  have h6: "fst (lookup_names ?c GUID_POWER_SAVER GUID_HIGH_PERFORMANCE) = Inr ()"
    by (simp add: scenario_collaborators_def app_collaborators_lookup_names)
  have f2: "fst (resolve_target ?f ''chrome.exe'') = Inr (Some GUID_HIGH_PERFORMANCE)"
    by code_simp
  have f3: "get_active_scheme_guid ?f = Inr (Some GUID_POWER_SAVER)"
    by code_simp
  have f6: "fst (lookup_names ?f GUID_POWER_SAVER GUID_HIGH_PERFORMANCE) = Inr ()"
    by (simp add: scenario_collaborators_def app_collaborators_lookup_names)
  show ?thesis
    using h1 h2 h3 h4 h5 h6 scenario_a scenario_a_failed
      differing_plan_is_switched_once[OF h1 h2 h3 h4 h5 h6]
      differing_plan_is_switched_once[OF h1 f2 f3 h4 h5 f6]
    by simp
qed

subsection \<open>Fallback to the default plan\<close>

text \<open>
  C5: for a process name whose key (lower case, stripped) is not in the map of the
  \<open>ConfigManager\<close>, the resolved target is the default plan (stored stripped, as
  \<open>update_general_settings\<close> and \<open>load_config\<close> store it). When the default is
  \<open>None\<close>, empty or blank, a warning is logged and the event is discarded: the
  iteration ends normally, no method of the power controller is called and the two plan
  trackers keep their values.
\<close>

theorem absent_process_uses_default:
  assumes "py_strip (py_lower name) \<notin> dom (app_power_map cfg)"
  shows "(\<forall>d. default_power_plan cfg = Some d \<and> d \<noteq> [] \<and> py_strip d = d \<longrightarrow>
            fst (resolve_target (app_collaborators cfg pm run) name) = Inr (Some d))
     \<and> ((default_power_plan cfg = None \<or> (\<exists>d. default_power_plan cfg = Some d \<and> py_strip d = [])) \<longrightarrow>
            fst (resolve_target (app_collaborators cfg pm run) name) = Inr None
          \<and> (\<exists>w. (w = Warning_default_plan_empty \<or> w = Warning_target_empty) \<and>
                snd (resolve_target (app_collaborators cfg pm run) name) =
                  [Call_get_power_plan_for_process name, Call_get_default_power_plan, w])
          \<and> fst (process_item (app_collaborators cfg pm run) name s) = Inr ()
          \<and> filter is_power_controller_call
               (snd (snd (process_item (app_collaborators cfg pm run) name s))) = []
          \<and> last_applied_power_plan_identifier
               (fst (snd (process_item (app_collaborators cfg pm run) name s))) =
              last_applied_power_plan_identifier s
          \<and> last_known_active_guid
               (fst (snd (process_item (app_collaborators cfg pm run) name s))) =
              last_known_active_guid s)"
proof -
  let ?c = "app_collaborators cfg pm run"
  have absent: "get_power_plan_for_process ?c name = Inr None"
    using assms
    by (auto simp add: app_collaborators_def ConfigManager_get_power_plan_for_process_def Let_def)
  have dflt: "get_default_power_plan ?c = Inr (default_power_plan cfg)"
    by (simp add: app_collaborators_def ConfigManager_get_default_power_plan_def)
  have a: "fst (resolve_target ?c name) = Inr (Some d)"
    if "default_power_plan cfg = Some d" "d \<noteq> []" "py_strip d = d" for d
    using that absent dflt by (simp add: resolve_target_def clean_target_def)
  have b: "\<exists>w. (w = Warning_default_plan_empty \<or> w = Warning_target_empty) \<and>
             resolve_target ?c name =
               (Inr None, [Call_get_power_plan_for_process name, Call_get_default_power_plan, w])"
    if "default_power_plan cfg = None \<or> (\<exists>d. default_power_plan cfg = Some d \<and> py_strip d = [])"
    using that absent dflt by (auto simp add: resolve_target_def clean_target_def)
  have c: "fst (process_item ?c name s) = Inr ()
          \<and> filter is_power_controller_call (snd (snd (process_item ?c name s))) = []
          \<and> last_applied_power_plan_identifier (fst (snd (process_item ?c name s))) =
              last_applied_power_plan_identifier s
          \<and> last_known_active_guid (fst (snd (process_item ?c name s))) =
              last_known_active_guid s"
    if "default_power_plan cfg = None \<or> (\<exists>d. default_power_plan cfg = Some d \<and> py_strip d = [])"
    using b[OF that] by (auto simp add: process_item_def Let_def)
  show ?thesis using a b c by (metis fst_conv snd_conv)
qed

text \<open>
  Scenario C resolves \<open>unknown.exe\<close> to the balanced plan; with no default plan the
  same event is discarded with a warning.
\<close>

theorem absent_process_uses_default_witness:
  "py_strip (py_lower ''unknown.exe'') \<notin> dom (app_power_map scenario_config)
   \<and> default_power_plan scenario_config = Some GUID_BALANCED
   \<and> GUID_BALANCED \<noteq> [] \<and> py_strip GUID_BALANCED = GUID_BALANCED
   \<and> fst (resolve_target (scenario_collaborators GUID_POWER_SAVER True) ''unknown.exe'') =
       Inr (Some GUID_BALANCED)
   \<and> default_power_plan (scenario_config\<lparr>default_power_plan := None\<rparr>) = None
   \<and> process_item
        (app_collaborators (scenario_config\<lparr>default_power_plan := None\<rparr>)
           scenario_power_manager (powercfg GUID_POWER_SAVER True))
        ''unknown.exe'' initial_engine_state =
       (Inr (), initial_engine_state\<lparr>last_processed_process := Some ''unknown.exe''\<rparr>,
        [Call_get_power_plan_for_process ''unknown.exe'', Call_get_default_power_plan,
         Warning_default_plan_empty])
   \<and> filter is_power_controller_call
        (snd (snd (process_item
           (app_collaborators (scenario_config\<lparr>default_power_plan := None\<rparr>)
              scenario_power_manager (powercfg GUID_POWER_SAVER True))
           ''unknown.exe'' initial_engine_state))) = []"
proof -
  let ?none = "scenario_config\<lparr>default_power_plan := None\<rparr>"
  have absent: "py_strip (py_lower ''unknown.exe'') \<notin> dom (app_power_map scenario_config)"
    by code_simp
  have absent': "py_strip (py_lower ''unknown.exe'') \<notin> dom (app_power_map ?none)"
    using absent by simp
  have d: "default_power_plan scenario_config = Some GUID_BALANCED"
    by (simp add: scenario_config_def)
  have ne: "GUID_BALANCED \<noteq> []"
    by (simp add: GUID_BALANCED_def)
  have st: "py_strip GUID_BALANCED = GUID_BALANCED"
    by code_simp
  have n: "default_power_plan ?none = None"
    by simp
  have ev: "process_item (app_collaborators ?none scenario_power_manager
                (powercfg GUID_POWER_SAVER True)) ''unknown.exe'' initial_engine_state =
       (Inr (), initial_engine_state\<lparr>last_processed_process := Some ''unknown.exe''\<rparr>,
        [Call_get_power_plan_for_process ''unknown.exe'', Call_get_default_power_plan,
         Warning_default_plan_empty])"
    by code_simp
  show ?thesis
    using absent d ne st n ev
      absent_process_uses_default[OF absent, of scenario_power_manager
        "powercfg GUID_POWER_SAVER True" initial_engine_state]
      absent_process_uses_default[OF absent', of scenario_power_manager
        "powercfg GUID_POWER_SAVER True" initial_engine_state]
    by (simp add: scenario_collaborators_def)
qed

subsection \<open>Exceptions inside an iteration\<close>

text \<open>
  C8: the loop ends only when the running flag is found cleared or the sentinel is
  received; what the collaborators answer, exceptions included, never ends it. When the
  processing of an item raises, the exception is caught in that iteration and logged
  (every exception but \<open>queue.Empty\<close>, which is the expected timeout of \<open>get\<close>), and
  the loop goes on with the next item from the state the failed item left.
\<close>

theorem errors_do_not_stop_the_loop:
  "(fst (process_queue its s) = Loop_finished \<longleftrightarrow>
      (\<exists>it \<in> set its. \<not> running_is_set it \<or> got it = Sentinel))
   \<and> (process_item c name s = (Inl e, s1, tr) \<longrightarrow>
        process_queue (\<lparr>running_is_set = True, got = Process_name name, answers = c\<rparr> # its) s =
          (fst (process_queue its s1), fst (snd (process_queue its s1)),
           tr @ handle_exception e @ snd (snd (process_queue its s1)))
        \<and> (e \<noteq> Queue_Empty \<longrightarrow> handle_exception e = [Error_unexpected e]))"
  using process_queue_finished_iff[of its s]
  by (simp add: handle_exception_def split: prod.splits)

text \<open>
  The query of the active plan raises for \<open>chrome.exe\<close>; the error is logged and the
  next event, \<open>unknown.exe\<close>, is switched to the default plan. A sentinel ends the loop.
\<close>

theorem errors_do_not_stop_the_loop_witness:
  "process_item failing_collaborators ''chrome.exe'' initial_engine_state =
     (Inl (Exception ''powercfg is gone''), chrome_seen,
      [Call_get_power_plan_for_process ''chrome.exe'', Call_get_active_scheme_guid])
   \<and> Exception ''powercfg is gone'' \<noteq> Queue_Empty
   \<and> process_queue
        [\<lparr>running_is_set = True, got = Process_name ''chrome.exe'',
          answers = failing_collaborators\<rparr>,
         \<lparr>running_is_set = True, got = Process_name ''unknown.exe'',
          answers = scenario_collaborators GUID_POWER_SAVER True\<rparr>] initial_engine_state =
       (Loop_running,
        \<lparr>last_processed_process = Some ''unknown.exe'',
         last_applied_power_plan_identifier = Some GUID_BALANCED,
         last_known_active_guid = Some GUID_BALANCED\<rparr>,
        [Call_get_power_plan_for_process ''chrome.exe'', Call_get_active_scheme_guid,
         Error_unexpected (Exception ''powercfg is gone''),
         Call_get_power_plan_for_process ''unknown.exe'', Call_get_default_power_plan,
         Call_get_active_scheme_guid,
         Call_get_power_plan_name_from_guid GUID_POWER_SAVER,
         Call_get_power_plan_name_from_guid GUID_BALANCED,
         Call_switch_power_plan GUID_BALANCED])
   \<and> (\<exists>it \<in> set [\<lparr>running_is_set = True, got = Sentinel, answers = failing_collaborators\<rparr>].
         \<not> running_is_set it \<or> got it = Sentinel)
   \<and> fst (process_queue
        [\<lparr>running_is_set = True, got = Sentinel, answers = failing_collaborators\<rparr>]
        initial_engine_state) = Loop_finished"
proof -
  have ne: "Exception ''powercfg is gone'' \<noteq> Queue_Empty" by simp
  show ?thesis
    using failing_item item_after_failure ne
      errors_do_not_stop_the_loop[where
        its = "[\<lparr>running_is_set = True, got = Process_name ''unknown.exe'',
                 answers = scenario_collaborators GUID_POWER_SAVER True\<rparr>]"
        and s = initial_engine_state and c = failing_collaborators and name = "''chrome.exe''"
        and e = "Exception ''powercfg is gone''" and ?s1.0 = chrome_seen
        and tr = "[Call_get_power_plan_for_process ''chrome.exe'', Call_get_active_scheme_guid]"]
      errors_do_not_stop_the_loop[where
        its = "[\<lparr>running_is_set = True, got = Sentinel, answers = failing_collaborators\<rparr>]"
        and s = initial_engine_state]
    by simp
qed

subsection \<open>The coupling of the two plan trackers\<close>

text \<open>
  C9: the initial state is coupled, and one iteration and any run of the loop keep a
  coupled state coupled: whenever the applied identifier and the known active
  identifier are both set, the second is the first in lower case. The reason is that an
  iteration either leaves both trackers as they are or assigns them together, a target
  and that target in lower case.
\<close>

theorem trackers_stay_coupled:
  "trackers_coupled initial_engine_state
   \<and> (trackers_coupled s \<longrightarrow> trackers_coupled (fst (snd (process_item c name s))))
   \<and> (trackers_coupled s \<longrightarrow> trackers_coupled (fst (snd (process_queue its s))))
   \<and> ((last_applied_power_plan_identifier (fst (snd (process_item c name s))) =
          last_applied_power_plan_identifier s
        \<and> last_known_active_guid (fst (snd (process_item c name s))) =
          last_known_active_guid s)
      \<or> (\<exists>t. last_applied_power_plan_identifier (fst (snd (process_item c name s))) = Some t
            \<and> last_known_active_guid (fst (snd (process_item c name s))) = Some (py_lower t)))"
proof -
  have a: "trackers_coupled initial_engine_state"
    by (simp add: trackers_coupled_def initial_engine_state_def)
  have b: "trackers_coupled (fst (snd (process_item c name s)))" if "trackers_coupled s"
    using process_item_coupled[of c name s] that
    by (cases "process_item c name s") auto
  have c: "trackers_coupled (fst (snd (process_queue its s)))" if "trackers_coupled s"
    using process_queue_coupled[of its s] that
    by (cases "process_queue its s") auto
  have d: "(last_applied_power_plan_identifier (fst (snd (process_item c name s))) =
          last_applied_power_plan_identifier s
        \<and> last_known_active_guid (fst (snd (process_item c name s))) =
          last_known_active_guid s)
      \<or> (\<exists>t. last_applied_power_plan_identifier (fst (snd (process_item c name s))) = Some t
            \<and> last_known_active_guid (fst (snd (process_item c name s))) = Some (py_lower t))"
    using process_item_trackers[of c name s]
    by (cases "process_item c name s") auto
  show ?thesis using a b c d by blast
qed

text \<open>
  From the initial state, after scenario A and after a run with a failing iteration.
\<close>

theorem trackers_stay_coupled_witness:
  "trackers_coupled initial_engine_state
   \<and> trackers_coupled (fst (snd (process_item (scenario_collaborators GUID_POWER_SAVER True)
        ''chrome.exe'' initial_engine_state)))
   \<and> fst (snd (process_item (scenario_collaborators GUID_POWER_SAVER True)
        ''chrome.exe'' initial_engine_state)) = high_performance_applied
   \<and> trackers_coupled (fst (snd (process_queue
        [\<lparr>running_is_set = True, got = Process_name ''chrome.exe'',
          answers = failing_collaborators\<rparr>,
         \<lparr>running_is_set = True, got = Process_name ''unknown.exe'',
          answers = scenario_collaborators GUID_POWER_SAVER True\<rparr>] initial_engine_state)))"
  using scenario_a
    trackers_stay_coupled[where s = initial_engine_state
      and c = "scenario_collaborators GUID_POWER_SAVER True" and name = "''chrome.exe''"
      and its = "[\<lparr>running_is_set = True, got = Process_name ''chrome.exe'',
                   answers = failing_collaborators\<rparr>,
                  \<lparr>running_is_set = True, got = Process_name ''unknown.exe'',
                   answers = scenario_collaborators GUID_POWER_SAVER True\<rparr>]"]
  by simp

subsection \<open>Switching without an identifier\<close>

text \<open>
  C10: \<open>PowerCfgManager.switch_power_plan\<close> called with \<open>None\<close> or with the empty string
  returns \<open>False\<close> and runs no command at all, whatever the operating system would
  answer.
\<close>

theorem switch_without_identifier_runs_nothing:
  "PowerCfgManager_switch_power_plan run None = (False, [])
   \<and> PowerCfgManager_switch_power_plan run (Some []) = (False, [])"
  by (simp add: PowerCfgManager_switch_power_plan_def)

subsection \<open>Stopping\<close>
















subsection \<open>A hook that cannot be set\<close>

text \<open>
  C1: when \<open>SetWinEventHook\<close> returns the null handle, the listener thread returns
  without entering its message loop, but \<open>start\<close> does not learn of it:
  \<open>EventListener.start\<close> has returned normally, so \<open>start\<close> sets the running flag,
  starts the processing thread and returns \<open>True\<close>. Nothing is stopped, and the
  listener is still marked as running.
\<close>

theorem start_succeeds_although_hook_fails:
  "startup \<lparr>listener_thread_start_error = None, processing_thread_start_error = None,
            stop_on_failure = sos\<rparr>
           \<lparr>GetCurrentThreadId = Inr tid, SetWinEventHook = Inr None, UnhookWinEvent = u\<rparr>
           PowerSwitcherApp_init =
     (Inr True, Some Thread_returned,
      PowerSwitcherApp_init
        \<lparr>event_listener :=
           EventListener_init\<lparr>is_running := True, listener_thread := Some Thread_finished\<rparr>,
         running := True, processing_thread := Some Thread_alive\<rparr>)
   \<and> startup \<lparr>listener_thread_start_error = None, processing_thread_start_error = None,
            stop_on_failure = sos\<rparr>
           \<lparr>GetCurrentThreadId = Inr tid, SetWinEventHook = Inr (Some 0), UnhookWinEvent = u\<rparr>
           PowerSwitcherApp_init =
     (Inr True, Some Thread_returned,
      PowerSwitcherApp_init
        \<lparr>event_listener :=
           EventListener_init\<lparr>is_running := True, listener_thread := Some Thread_finished,
                               hook_handle := Some 0\<rparr>,
         running := True, processing_thread := Some Thread_alive\<rparr>)"
  by (simp add: startup_def PowerSwitcherApp_start_def EventListener_start_def
      PowerSwitcherApp_init_def EventListener_init_def thread_entry_def cleanup_thread_entry_def
      Let_def)

end
